theory Spec2Isabelle
  imports Main
begin

section \<open>The blog API of api/index.js\<close>

text \<open>
  The Express application of api/index.js, one HOL function per route handler.
  A handler takes the server state (the two collections and the upload directory)
  and a request, and returns the new state with the response it sent, if it sent one.
  The libraries the handlers call (bcryptjs, jsonwebtoken, the ObjectId generator, the
  clock) are fields of an environment record, called with the arguments the source
  passes. Bodies are modelled with the fields the client sends as strings; the password
  of register and login may be absent, since bcryptjs throws on a missing one. Of a
  cookie the response keeps the name and the value, not its attributes.
  The storage layer is assumed reachable: it fails only on a duplicate key or on an id
  that does not cast to an ObjectId. Mongoose casts every id it is given to an ObjectId
  before it compares it with the stored ones, so a stored post is found under every
  spelling of its id; the environment's \<open>cast_oid\<close> is that cast, \<open>None\<close> where it
  throws. The file system may refuse the name a file is renamed to (one that is too
  long, for one); the environment's \<open>fs_accepts\<close> tells which names it takes.
\<close>

subsection \<open>Data model\<close>

type_synonym oid = string

text \<open>
  Modelled from the spec: the User schema (models/User) is not part of the sources here.
  The spec gives a user a unique username and a salted, hashed password, referenced by
  posts through an identifier.
\<close>

record user =
  u_id :: oid
  u_username :: string
  u_password :: string

text \<open>
  Modelled from the spec: the Post schema (models/Post) is not part of the sources here.
  The spec gives a post a title, summary, content, cover-file path, author reference
  (the owning user's id) and creation timestamp.
\<close>

record post =
  p_id :: oid
  title :: string
  summary :: string
  content :: string
  cover :: string
  author :: oid
  createdAt :: int

text \<open>The claims \<open>{username, id}\<close> a session token carries.\<close>

record info =
  info_username :: string
  info_id :: oid

text \<open>A post of the list endpoint, its author replaced by the joined user document.\<close>

record populated_post =
  pp_id :: oid
  pp_title :: string
  pp_summary :: string
  pp_content :: string
  pp_cover :: string
  pp_author :: "(oid \<times> string) option"
  pp_createdAt :: int

text \<open>\<open>req.file\<close> as multer's disk storage fills it: the name the client gave, the
  temporary path under uploads/ the bytes were written to, and the bytes.\<close>

record upload =
  originalname :: string
  path :: string
  data :: string

type_synonym disk = "string \<rightharpoonup> string"

record state =
  users :: "user list"
  posts :: "post list"
  files :: disk

datatype error =
  DuplicateKey | CastError | ValidationError | IllegalArguments | ENOENT | ENAMETOOLONG

datatype json =
    JString string
  | JError string
  | JUser user
  | JPost post
  | JPosts "populated_post list"
  | JIdentity oid string
  | JSuccess
  | JException error

record response =
  status :: nat
  body :: json
  set_cookie :: "(string \<times> string) option"

definition res_json :: "nat \<Rightarrow> json \<Rightarrow> response" where
  "res_json code b = \<lparr>status = code, body = b, set_cookie = None\<rparr>"

record env =
  salt :: string
  secret :: string
  hashSync :: "string \<Rightarrow> string \<Rightarrow> string"
  compareSync :: "string \<Rightarrow> string \<Rightarrow> bool"
  jwt_sign :: "info \<Rightarrow> string \<Rightarrow> string option"
  jwt_verify :: "string \<Rightarrow> string \<Rightarrow> info option"
  cast_oid :: "string \<Rightarrow> oid option"
  fs_accepts :: "string \<Rightarrow> bool"
  new_oid :: oid
  now :: int

subsection \<open>The user collection\<close>

definition User_findOne :: "user list \<Rightarrow> string \<Rightarrow> user option" where
  "User_findOne us name = find (\<lambda>u. u_username u = name) us"

text \<open>
  Modelled from the spec: \<open>User.create\<close> belongs to the missing User schema. Following
  the spec, the storage layer rejects a username that is already stored (uniqueness
  constraint); as for every collection, it also rejects an \<open>_id\<close> already in use.
\<close>

definition User_create :: "env \<Rightarrow> user list \<Rightarrow> string \<Rightarrow> string \<Rightarrow> error + (user \<times> user list)" where
  "User_create e us name pw =
     (if name \<in> set (map u_username us) \<or> new_oid e \<in> set (map u_id us)
      then Inl DuplicateKey
      else (let userDoc = \<lparr>u_id = new_oid e, u_username = name, u_password = pw\<rparr>
            in Inr (userDoc, us @ [userDoc])))"

subsection \<open>POST /register\<close>

record credentials =
  username :: string
  password :: "string option"

definition post_register :: "env \<Rightarrow> state \<Rightarrow> credentials \<Rightarrow> state \<times> response option" where
  "post_register e st req =
     (case password req of
        None \<Rightarrow> (st, Some (res_json 400 (JException IllegalArguments)))
      | Some pw \<Rightarrow>
          (case User_create e (users st) (username req) (hashSync e pw (salt e)) of
             Inl err \<Rightarrow> (st, Some (res_json 400 (JException err)))
           | Inr (userDoc, us') \<Rightarrow> (st\<lparr>users := us'\<rparr>, Some (res_json 200 (JUser userDoc)))))"

subsection \<open>POST /login\<close>

definition post_login :: "env \<Rightarrow> state \<Rightarrow> credentials \<Rightarrow> state \<times> response option" where
  "post_login e st req =
     (case User_findOne (users st) (username req) of
        None \<Rightarrow> (st, Some (res_json 400 (JString ''wrong credentials'')))
      | Some userDoc \<Rightarrow>
          (case password req of
             None \<Rightarrow> (st, Some (res_json 500 (JString ''Internal server error'')))
           | Some pw \<Rightarrow>
               if \<not> compareSync e pw (u_password userDoc)
               then (st, Some (res_json 400 (JString ''wrong credentials'')))
               else (case jwt_sign e \<lparr>info_username = username req, info_id = u_id userDoc\<rparr> (secret e) of
                       None \<Rightarrow> (st, Some (res_json 500 (JString ''Internal server error'')))
                     | Some tok \<Rightarrow>
                         (st, Some \<lparr>status = 200,
                                    body = JIdentity (u_id userDoc) (username req),
                                    set_cookie = Some (''token'', tok)\<rparr>))))"

subsection \<open>The upload directory\<close>

text \<open>\<open>uploadMiddleware.single('file')\<close> runs before the handler and has written the
  uploaded bytes to their temporary path when the handler starts.\<close>

definition upload_single :: "disk \<Rightarrow> upload option \<Rightarrow> disk" where
  "upload_single d f = (case f of None \<Rightarrow> d | Some u \<Rightarrow> d(path u \<mapsto> data u))"

text \<open>\<open>fs.renameSync\<close> throws when the source is missing and when the file system
  refuses the new name.\<close>

definition renameSync :: "env \<Rightarrow> string \<Rightarrow> string \<Rightarrow> disk \<Rightarrow> error + disk" where
  "renameSync e old new d =
     (case d old of
        None \<Rightarrow> Inl ENOENT
      | Some bytes \<Rightarrow>
          if \<not> fs_accepts e new then Inl ENAMETOOLONG
          else Inr (d(old := None, new \<mapsto> bytes)))"

definition existsSync :: "string \<Rightarrow> disk \<Rightarrow> bool" where
  "existsSync p d = (d p \<noteq> None)"

definition unlinkSync :: "string \<Rightarrow> disk \<Rightarrow> error + disk" where
  "unlinkSync p d = (if d p = None then Inl ENOENT else Inr (d(p := None)))"

text \<open>\<open>originalname.split('.')\<close>: the pieces between the separators, never an empty list.\<close>

fun split_on :: "char \<Rightarrow> string \<Rightarrow> string list" where
  "split_on c [] = [[]]"
| "split_on c (x # xs) =
     (if x = c then [] # split_on c xs
      else (case split_on c xs of [] \<Rightarrow> [[x]] | p # ps \<Rightarrow> (x # p) # ps))"

definition new_path :: "upload \<Rightarrow> string" where
  "new_path f =
     (let parts = split_on CHR ''.'' (originalname f);
          ext = last parts
      in path f @ ''.'' @ ext)"

subsection \<open>The post collection\<close>

text \<open>\<open>JSON.stringify\<close> of an object id or of the id claim of a token: the hexadecimal
  string between double quotes (no character of it needs an escape).\<close>

definition JSON_stringify :: "oid \<Rightarrow> string" where
  "JSON_stringify i = CHR 0x22 # i @ [CHR 0x22]"

text \<open>\<open>Post.findById(id)\<close>: the id is cast to an ObjectId, a \<open>CastError\<close> when it has
  no cast, and the stored document with that \<open>_id\<close> is returned, if there is one.\<close>

definition Post_findById :: "env \<Rightarrow> post list \<Rightarrow> string \<Rightarrow> error + post option" where
  "Post_findById e ps i =
     (case cast_oid e i of
        None \<Rightarrow> Inl CastError
      | Some c \<Rightarrow> Inr (find (\<lambda>p. p_id p = c) ps))"

definition Post_create ::
  "env \<Rightarrow> post list \<Rightarrow> string \<Rightarrow> string \<Rightarrow> string \<Rightarrow> string \<Rightarrow> oid \<Rightarrow> error + (post \<times> post list)" where
  "Post_create e ps t s c cv a =
     (case cast_oid e a of
        None \<Rightarrow> Inl ValidationError
      | Some au \<Rightarrow>
          if new_oid e \<in> set (map p_id ps) then Inl DuplicateKey
          else (let postDoc = \<lparr>p_id = new_oid e, title = t, summary = s, content = c,
                                 cover = cv, author = au, createdAt = now e\<rparr>
                in Inr (postDoc, ps @ [postDoc])))"

text \<open>\<open>postDoc.updateOne({title, summary, content, cover})\<close>: sets the four fields of the
  stored document whose \<open>_id\<close> is that of \<open>postDoc\<close>.\<close>

primrec Post_updateOne :: "oid \<Rightarrow> string \<Rightarrow> string \<Rightarrow> string \<Rightarrow> string \<Rightarrow> post list \<Rightarrow> post list" where
  "Post_updateOne i t s c cv [] = []"
| "Post_updateOne i t s c cv (p # ps) =
     (if p_id p = i then p\<lparr>title := t, summary := s, content := c, cover := cv\<rparr> # ps
      else p # Post_updateOne i t s c cv ps)"

text \<open>\<open>Post.findByIdAndDelete(id)\<close> casts the id as \<open>findById\<close> does and removes the one
  document with that \<open>_id\<close>.\<close>

primrec Post_deleteOne :: "oid \<Rightarrow> post list \<Rightarrow> post list" where
  "Post_deleteOne i [] = []"
| "Post_deleteOne i (p # ps) = (if p_id p = i then ps else p # Post_deleteOne i ps)"

definition Post_findByIdAndDelete :: "env \<Rightarrow> post list \<Rightarrow> string \<Rightarrow> error + post list" where
  "Post_findByIdAndDelete e ps i =
     (case cast_oid e i of
        None \<Rightarrow> Inl CastError
      | Some c \<Rightarrow> Inr (Post_deleteOne c ps))"

definition populate :: "user list \<Rightarrow> post \<Rightarrow> populated_post" where
  "populate us p =
     \<lparr>pp_id = p_id p, pp_title = title p, pp_summary = summary p, pp_content = content p,
      pp_cover = cover p,
      pp_author = map_option (\<lambda>u. (u_id u, u_username u)) (find (\<lambda>u. u_id u = author p) us),
      pp_createdAt = createdAt p\<rparr>"

subsection \<open>POST /post\<close>

record session_req =
  token :: "string option"

record post_req = session_req +
  req_file :: "upload option"
  req_title :: string
  req_summary :: string
  req_content :: string

record put_req = post_req +
  req_id :: string

record delete_req = session_req +
  param_id :: string

definition post_post :: "env \<Rightarrow> state \<Rightarrow> post_req \<Rightarrow> state \<times> response option" where
  "post_post e st0 req =
     (let st = st0\<lparr>files := upload_single (files st0) (req_file req)\<rparr> in
      case token req of
        None \<Rightarrow> (st, Some (res_json 401 (JError ''No token provided'')))
      | Some tok \<Rightarrow>
          if tok = [] then (st, Some (res_json 401 (JError ''No token provided'')))
          else (case jwt_verify e tok (secret e) of
                  None \<Rightarrow> (st, Some (res_json 403 (JError ''Invalid token'')))
                | Some info \<Rightarrow>
                    (case req_file req of
                       None \<Rightarrow> (st, Some (res_json 400 (JError ''No file uploaded'')))
                     | Some f \<Rightarrow>
                         (let newPath = new_path f in
                          case renameSync e (path f) newPath (files st) of
                            Inl err \<Rightarrow> (st, None)
                          | Inr d \<Rightarrow>
                              (case Post_create e (posts st) (req_title req) (req_summary req)
                                      (req_content req) newPath (info_id info) of
                                 Inl err \<Rightarrow>
                                   (st\<lparr>files := d\<rparr>,
                                    Some (res_json 500 (JError ''Failed to create post'')))
                               | Inr (postDoc, ps) \<Rightarrow>
                                   (st\<lparr>files := d, posts := ps\<rparr>,
                                    Some (res_json 200 (JPost postDoc))))))))"

subsection \<open>PUT /post\<close>

definition put_post :: "env \<Rightarrow> state \<Rightarrow> put_req \<Rightarrow> state \<times> response option" where
  "put_post e st0 req =
     (let st = st0\<lparr>files := upload_single (files st0) (req_file req)\<rparr> in
      case token req of
        None \<Rightarrow> (st, Some (res_json 401 (JError ''No token provided'')))
      | Some tok \<Rightarrow>
          if tok = [] then (st, Some (res_json 401 (JError ''No token provided'')))
          else (case jwt_verify e tok (secret e) of
                  None \<Rightarrow> (st, Some (res_json 403 (JError ''Invalid token'')))
                | Some info \<Rightarrow>
                    (case (case req_file req of
                             None \<Rightarrow> Inr (None, files st)
                           | Some f \<Rightarrow>
                               (case renameSync e (path f) (new_path f) (files st) of
                                  Inl err \<Rightarrow> Inl err
                                | Inr d \<Rightarrow> Inr (Some (new_path f), d))) of
                       Inl err \<Rightarrow> (st, None)
                     | Inr (newPath, d) \<Rightarrow>
                         (case Post_findById e (posts st) (req_id req) of
                            Inl err \<Rightarrow>
                              (st\<lparr>files := d\<rparr>,
                               Some (res_json 500 (JError ''Failed to update post'')))
                          | Inr None \<Rightarrow>
                              (st\<lparr>files := d\<rparr>, Some (res_json 404 (JString ''Post not found'')))
                          | Inr (Some postDoc) \<Rightarrow>
                              (let isAuthor =
                                     (JSON_stringify (author postDoc) = JSON_stringify (info_id info))
                               in if \<not> isAuthor
                                  then (st\<lparr>files := d\<rparr>,
                                        Some (res_json 403 (JString ''You are not the author'')))
                                  else (st\<lparr>files := d,
                                           posts := Post_updateOne (p_id postDoc) (req_title req)
                                                      (req_summary req) (req_content req)
                                                      (case newPath of
                                                         None \<Rightarrow> cover postDoc
                                                       | Some np \<Rightarrow> if np \<noteq> [] then np else cover postDoc)
                                                      (posts st)\<rparr>,
                                        Some (res_json 200 (JPost postDoc))))))))"

subsection \<open>GET /post\<close>

text \<open>\<open>sort({createdAt: -1})\<close> is a descending sort on the creation timestamp; documents
  with equal timestamps keep their stored order.\<close>

definition get_post :: "state \<Rightarrow> state \<times> response option" where
  "get_post st =
     (let found = take 20 (sort_key (\<lambda>p. - createdAt p) (posts st));
          posts = map (populate (users st)) found
      in (st, Some (res_json 200 (JPosts posts))))"

subsection \<open>DELETE /post/:id\<close>

definition delete_post :: "env \<Rightarrow> state \<Rightarrow> delete_req \<Rightarrow> state \<times> response option" where
  "delete_post e st req =
     (case token req of
        None \<Rightarrow> (st, Some (res_json 401 (JError ''No token provided'')))
      | Some tok \<Rightarrow>
          if tok = [] then (st, Some (res_json 401 (JError ''No token provided'')))
          else (case jwt_verify e tok (secret e) of
                  None \<Rightarrow> (st, Some (res_json 403 (JError ''Invalid token'')))
                | Some info \<Rightarrow>
                    (case Post_findById e (posts st) (param_id req) of
                       Inl err \<Rightarrow> (st, Some (res_json 500 (JString ''Failed to delete post'')))
                     | Inr None \<Rightarrow> (st, Some (res_json 404 (JString ''Post not found'')))
                     | Inr (Some postDoc) \<Rightarrow>
                         (let isAuthor =
                                (JSON_stringify (author postDoc) = JSON_stringify (info_id info))
                          in if \<not> isAuthor
                             then (st, Some (res_json 403 (JString ''You are not the author'')))
                             else (case (if cover postDoc \<noteq> [] \<and> existsSync (cover postDoc) (files st)
                                         then unlinkSync (cover postDoc) (files st)
                                         else Inr (files st)) of
                                     Inl err \<Rightarrow>
                                       (st, Some (res_json 500 (JString ''Failed to delete post'')))
                                   | Inr d \<Rightarrow>
                                       (case Post_findByIdAndDelete e (posts st) (param_id req) of
                                          Inl err \<Rightarrow>
                                            (st\<lparr>files := d\<rparr>,
                                             Some (res_json 500 (JString ''Failed to delete post'')))
                                        | Inr ps \<Rightarrow>
                                            (st\<lparr>files := d, posts := ps\<rparr>,
                                             Some (res_json 200 JSuccess))))))))"

subsection \<open>A small instance\<close>

text \<open>Two users, two posts and their cover files, with toy stand-ins for the libraries
  (ids of two characters, of which \<open>F\<close> may also be written \<open>f\<close>; names of up to 255
  characters); the handlers are evaluated on it below.\<close>

definition test_env :: env where
  "test_env =
     \<lparr>salt = ''na'', secret = ''k'',
      hashSync = (\<lambda>pw s. s @ pw),
      compareSync = (\<lambda>pw h. h = ''na'' @ pw),
      jwt_sign = (\<lambda>i k. Some (k @ info_id i)),
      jwt_verify = (\<lambda>t k. if t = k @ ''a1'' then Some \<lparr>info_username = ''ann'', info_id = ''a1''\<rparr>
                            else if t = k @ ''b2'' then Some \<lparr>info_username = ''bob'', info_id = ''b2''\<rparr>
                            else None),
      cast_oid = (\<lambda>s. if length s = 2
                      then Some (map (\<lambda>c. if c = CHR ''F'' then CHR ''f'' else c) s)
                      else None),
      fs_accepts = (\<lambda>p. length p \<le> 255),
      new_oid = ''c3'',
      now = 30\<rparr>"

definition test_post :: post where
  "test_post = \<lparr>p_id = ''f0'', title = ''t'', summary = ''s'', content = ''c'',
                 cover = ''uploads/x.png'', author = ''a1'', createdAt = 10\<rparr>"

definition test_post2 :: post where
  "test_post2 = \<lparr>p_id = ''f1'', title = ''u'', summary = ''v'', content = ''w'',
                  cover = ''uploads/y.jpg'', author = ''b2'', createdAt = 20\<rparr>"

definition test_state :: state where
  "test_state =
     \<lparr>users = [\<lparr>u_id = ''a1'', u_username = ''ann'', u_password = ''napw''\<rparr>,
               \<lparr>u_id = ''b2'', u_username = ''bob'', u_password = ''naqq''\<rparr>],
      posts = [test_post, test_post2],
      files = [''uploads/x.png'' \<mapsto> ''PNG'', ''uploads/y.jpg'' \<mapsto> ''JPG'']\<rparr>"

definition test_upload :: upload where
  "test_upload = \<lparr>originalname = ''photo'', path = ''uploads/ab'', data = ''GIF''\<rparr>"

definition test_long_upload :: upload where
  "test_long_upload =
     \<lparr>originalname = replicate 300 CHR ''a'', path = ''uploads/cd'', data = ''BMP''\<rparr>"

definition test_put :: "string \<Rightarrow> upload option \<Rightarrow> put_req" where
  "test_put tok f =
     \<lparr>token = Some tok, req_file = f, req_title = ''T'', req_summary = ''S'',
      req_content = ''C'', req_id = ''f0''\<rparr>"

definition test_create :: "string option \<Rightarrow> post_req" where
  "test_create tok =
     \<lparr>token = tok, req_file = Some test_upload, req_title = ''T'', req_summary = ''S'',
      req_content = ''C''\<rparr>"

definition test_delete :: "string \<Rightarrow> delete_req" where
  "test_delete tok = \<lparr>token = Some tok, param_id = ''f0''\<rparr>"

section \<open>Properties\<close>

subsection \<open>Auxiliary facts\<close>

lemmas test_defs = test_env_def test_post_def test_post2_def test_state_def test_upload_def
  test_long_upload_def test_put_def test_create_def test_delete_def

lemma split_on_not_Nil: "split_on c s \<noteq> []"
  by (induction s) (auto split: list.splits)

lemma split_on_no_sep: "c \<notin> set s \<Longrightarrow> split_on c s = [s]"
  by (induction s) auto

lemma JSON_stringify_eq: "(JSON_stringify a = JSON_stringify b) = (a = b)"
  by (simp add: JSON_stringify_def)

lemma new_path_not_Nil: "new_path f \<noteq> []"
  by (simp add: new_path_def Let_def)

lemma renameSync_upload:
  "renameSync e (path f) n (upload_single d (Some f)) =
     (if fs_accepts e n then Inr (d(path f := None, n \<mapsto> data f)) else Inl ENAMETOOLONG)"
  by (simp add: renameSync_def upload_single_def)

lemma Post_findById_Some:
  "Post_findById e ps i = Inr (Some d) \<longleftrightarrow>
     (\<exists>c. cast_oid e i = Some c \<and> find (\<lambda>p. p_id p = c) ps = Some d)"
  by (simp add: Post_findById_def split: option.split)

lemma find_updateOne:
  "find (\<lambda>p. p_id p = i) ps = Some d \<Longrightarrow>
   find (\<lambda>p. p_id p = i) (Post_updateOne i t s c cv ps) =
     Some (d\<lparr>title := t, summary := s, content := c, cover := cv\<rparr>)"
  by (induction ps) (auto split: if_splits)

lemma find_p_id: "find (\<lambda>p. p_id p = i) ps = Some d \<Longrightarrow> p_id d = i \<and> d \<in> set ps"
  by (induction ps) (auto split: if_splits)

lemma map_author_updateOne: "map author (Post_updateOne i t s c cv ps) = map author ps"
  by (induction ps) auto

lemma map_p_id_updateOne: "map p_id (Post_updateOne i t s c cv ps) = map p_id ps"
  by (induction ps) auto

lemma filter_updateOne:
  "filter (\<lambda>p. p_id p \<noteq> i) (Post_updateOne i t s c cv ps) = filter (\<lambda>p. p_id p \<noteq> i) ps"
  by (induction ps) auto

lemma deleteOne_remove1:
  "find (\<lambda>p. p_id p = i) ps = Some d \<Longrightarrow> Post_deleteOne i ps = remove1 d ps"
  by (induction ps) (auto split: if_splits dest: find_p_id)

lemma find_deleteOne_distinct:
  "distinct (map p_id ps) \<Longrightarrow> find (\<lambda>p. p_id p = i) (Post_deleteOne i ps) = None"
  by (induction ps) (auto simp: find_None_iff image_iff)

lemma put_post_rename_fails:
  assumes "token req = Some tok" "tok \<noteq> []" "jwt_verify e tok (secret e) = Some info"
    and "req_file req = Some f" and "\<not> fs_accepts e (new_path f)"
  shows "put_post e st req = (st\<lparr>files := (files st)(path f \<mapsto> data f)\<rparr>, None)"
  using assms
  by (simp add: put_post_def renameSync_def Let_def upload_single_def)

lemma put_post_verified:
  assumes "token req = Some tok" "tok \<noteq> []" "jwt_verify e tok (secret e) = Some info"
    and "\<forall>f. req_file req = Some f \<longrightarrow> fs_accepts e (new_path f)"
  shows "put_post e st req =
       (let d = (case req_file req of None \<Rightarrow> files st
                 | Some f \<Rightarrow> (files st)(path f := None, new_path f \<mapsto> data f))
        in case Post_findById e (posts st) (req_id req) of
             Inl err \<Rightarrow> (st\<lparr>files := d\<rparr>, Some (res_json 500 (JError ''Failed to update post'')))
           | Inr None \<Rightarrow> (st\<lparr>files := d\<rparr>, Some (res_json 404 (JString ''Post not found'')))
           | Inr (Some postDoc) \<Rightarrow>
               if author postDoc \<noteq> info_id info
               then (st\<lparr>files := d\<rparr>, Some (res_json 403 (JString ''You are not the author'')))
               else (st\<lparr>files := d,
                        posts := Post_updateOne (p_id postDoc) (req_title req) (req_summary req)
                                   (req_content req)
                                   (case req_file req of None \<Rightarrow> cover postDoc
                                    | Some f \<Rightarrow> new_path f)
                                   (posts st)\<rparr>,
                     Some (res_json 200 (JPost postDoc))))"
proof (cases "req_file req")
  case None
  then show ?thesis
    using assms
    by (simp add: put_post_def upload_single_def JSON_stringify_eq
             split: sum.split option.split)
next
  case (Some f)
  with assms(4) have "fs_accepts e (new_path f)" by simp
  with Some show ?thesis
    using assms(1-3)
    by (simp add: put_post_def renameSync_upload JSON_stringify_eq new_path_not_Nil Let_def
             split: sum.split option.split)
qed

lemma delete_post_verified:
  assumes "token req = Some tok" "tok \<noteq> []" "jwt_verify e tok (secret e) = Some info"
  shows "delete_post e st req =
     (case Post_findById e (posts st) (param_id req) of
        Inl err \<Rightarrow> (st, Some (res_json 500 (JString ''Failed to delete post'')))
      | Inr None \<Rightarrow> (st, Some (res_json 404 (JString ''Post not found'')))
      | Inr (Some postDoc) \<Rightarrow>
          if author postDoc \<noteq> info_id info
          then (st, Some (res_json 403 (JString ''You are not the author'')))
          else (let d = (if cover postDoc \<noteq> [] then (files st)(cover postDoc := None)
                         else files st)
                in case Post_findByIdAndDelete e (posts st) (param_id req) of
                     Inl err \<Rightarrow>
                       (st\<lparr>files := d\<rparr>, Some (res_json 500 (JString ''Failed to delete post'')))
                   | Inr ps \<Rightarrow> (st\<lparr>files := d, posts := ps\<rparr>, Some (res_json 200 JSuccess))))"
  using assms
  by (auto simp: delete_post_def JSON_stringify_eq existsSync_def unlinkSync_def Let_def
                 fun_upd_idem
           split: sum.split option.split)

lemma put_post_unverified:
  assumes "token req = None \<or> token req = Some [] \<or>
           (\<exists>tok. token req = Some tok \<and> jwt_verify e tok (secret e) = None)"
  shows "\<exists>st' r. put_post e st req = (st', Some r) \<and> status r \<noteq> 200"
  using assms
  by (auto simp: put_post_def Let_def res_json_def split: option.split)

lemma delete_post_unverified:
  assumes "token req = None \<or> token req = Some [] \<or>
           (\<exists>tok. token req = Some tok \<and> jwt_verify e tok (secret e) = None)"
  shows "\<exists>st' r. delete_post e st req = (st', Some r) \<and> status r \<noteq> 200"
  using assms
  by (auto simp: delete_post_def Let_def res_json_def split: option.split)

lemma token_cases:
  obtains "token req = None" | "token req = Some []"
  | tok where "token req = Some tok" "tok \<noteq> []" "jwt_verify e tok (secret e) = None"
  | tok info where "token req = Some tok" "tok \<noteq> []" "jwt_verify e tok (secret e) = Some info"
proof (cases "token req")
  case None
  then show ?thesis using that(1) by simp
next
  case (Some tok)
  show ?thesis
  proof (cases "tok = []")
    case True
    with Some show ?thesis using that(2) by simp
  next
    case False
    show ?thesis
    proof (cases "jwt_verify e tok (secret e)")
      case None
      with Some False show ?thesis using that(3) by simp
    next
      case (Some info)
      with \<open>token req = Some tok\<close> False show ?thesis using that(4) by simp
    qed
  qed
qed

lemma put_post_ok_state:
  assumes "put_post e st req = (st', Some r)" and "status r = 200"
  obtains c postDoc where
    "cast_oid e (req_id req) = Some c"
    "find (\<lambda>p. p_id p = c) (posts st) = Some postDoc"
    "st' = st\<lparr>files := (case req_file req of None \<Rightarrow> files st
                          | Some f \<Rightarrow> (files st)(path f := None, new_path f \<mapsto> data f)),
              posts := Post_updateOne c (req_title req) (req_summary req)
                         (req_content req)
                         (case req_file req of None \<Rightarrow> cover postDoc | Some f \<Rightarrow> new_path f)
                         (posts st)\<rparr>"
    "r = res_json 200 (JPost postDoc)"
proof (cases rule: token_cases [where req = req and e = e])
  case 1
  with put_post_unverified [of req e st] assms show ?thesis by auto
next
  case 2
  with put_post_unverified [of req e st] assms show ?thesis by auto
next
  case (3 tok)
  with put_post_unverified [of req e st] assms show ?thesis by auto
next
  case (4 tok info)
  show ?thesis
  proof (cases "\<exists>f. req_file req = Some f \<and> \<not> fs_accepts e (new_path f)")
    case True
    then obtain f where "req_file req = Some f" "\<not> fs_accepts e (new_path f)" by blast
    from put_post_rename_fails [OF 4 this, of st] assms(1) show ?thesis by simp
  next
    case False
    then have ok: "\<forall>f. req_file req = Some f \<longrightarrow> fs_accepts e (new_path f)" by blast
    note eq = put_post_verified [OF 4 ok, of st]
    show ?thesis
    proof (cases "Post_findById e (posts st) (req_id req)")
      case (Inl err)
      with eq assms show ?thesis by (simp add: Let_def res_json_def)
    next
      case (Inr found)
      show ?thesis
      proof (cases found)
        case None
        with Inr eq assms show ?thesis by (simp add: Let_def res_json_def)
      next
        case (Some postDoc)
        with Inr obtain c where c: "cast_oid e (req_id req) = Some c"
          and f: "find (\<lambda>p. p_id p = c) (posts st) = Some postDoc"
          by (auto simp: Post_findById_Some)
        from f have pid: "p_id postDoc = c" by (rule find_p_id [THEN conjunct1])
        show ?thesis
        proof (cases "author postDoc = info_id info")
          case True
          have "put_post e st req =
            (st\<lparr>files := (case req_file req of None \<Rightarrow> files st
                          | Some f \<Rightarrow> (files st)(path f := None, new_path f \<mapsto> data f)),
                posts := Post_updateOne c (req_title req) (req_summary req)
                         (req_content req)
                         (case req_file req of None \<Rightarrow> cover postDoc | Some f \<Rightarrow> new_path f)
                         (posts st)\<rparr>,
             Some (res_json 200 (JPost postDoc)))"
            unfolding eq using Inr Some True by (simp add: pid Let_def)
          with assms(1) c f show ?thesis by (intro that [of c postDoc]) simp_all
        next
          case False
          with Some Inr eq assms show ?thesis by (simp add: Let_def res_json_def)
        qed
      qed
    qed
  qed
qed

lemma delete_post_ok_state:
  assumes "delete_post e st req = (st', Some r)" and "status r = 200"
  obtains c postDoc where
    "cast_oid e (param_id req) = Some c"
    "find (\<lambda>p. p_id p = c) (posts st) = Some postDoc"
    "st' = st\<lparr>files := (if cover postDoc \<noteq> [] then (files st)(cover postDoc := None)
                          else files st),
              posts := Post_deleteOne c (posts st)\<rparr>"
    "r = res_json 200 JSuccess"
proof (cases rule: token_cases [where req = req and e = e])
  case 1
  with delete_post_unverified [of req e st] assms show ?thesis by auto
next
  case 2
  with delete_post_unverified [of req e st] assms show ?thesis by auto
next
  case (3 tok)
  with delete_post_unverified [of req e st] assms show ?thesis by auto
next
  case (4 tok info)
  note eq = delete_post_verified [OF 4, of st]
  show ?thesis
  proof (cases "Post_findById e (posts st) (param_id req)")
    case (Inl err)
    with eq assms show ?thesis by (simp add: res_json_def)
  next
    case (Inr found)
    show ?thesis
    proof (cases found)
      case None
      with Inr eq assms show ?thesis by (simp add: res_json_def)
    next
      case (Some postDoc)
      with Inr obtain c where c: "cast_oid e (param_id req) = Some c"
        and f: "find (\<lambda>p. p_id p = c) (posts st) = Some postDoc"
        by (auto simp: Post_findById_Some)
      show ?thesis
      proof (cases "author postDoc = info_id info")
        case True
        have "delete_post e st req =
          (st\<lparr>files := (if cover postDoc \<noteq> [] then (files st)(cover postDoc := None)
                          else files st),
              posts := Post_deleteOne c (posts st)\<rparr>,
           Some (res_json 200 JSuccess))"
          unfolding eq using Inr Some True c
          by (simp add: Post_findByIdAndDelete_def Let_def)
        with assms(1) c f show ?thesis by (intro that [of c postDoc]) simp_all
      next
        case False
        with Some Inr eq assms show ?thesis by (simp add: res_json_def)
      qed
    qed
  qed
qed

lemma post_post_unverified:
  assumes "token req = None \<or> token req = Some [] \<or>
           (\<exists>tok. token req = Some tok \<and> jwt_verify e tok (secret e) = None)"
  shows "\<exists>st' r. post_post e st req = (st', Some r) \<and> status r \<noteq> 200"
  using assms
  by (auto simp: post_post_def Let_def res_json_def split: option.split)

lemma post_post_verified:
  assumes "token req = Some tok" "tok \<noteq> []" "jwt_verify e tok (secret e) = Some info"
  shows "post_post e st req =
     (case req_file req of
        None \<Rightarrow> (st, Some (res_json 400 (JError ''No file uploaded'')))
      | Some f \<Rightarrow>
          if \<not> fs_accepts e (new_path f)
          then (st\<lparr>files := (files st)(path f \<mapsto> data f)\<rparr>, None)
          else
           (let d = (files st)(path f := None, new_path f \<mapsto> data f)
            in case Post_create e (posts st) (req_title req) (req_summary req) (req_content req)
                      (new_path f) (info_id info) of
                 Inl err \<Rightarrow> (st\<lparr>files := d\<rparr>, Some (res_json 500 (JError ''Failed to create post'')))
               | Inr (postDoc, ps) \<Rightarrow>
                   (st\<lparr>files := d, posts := ps\<rparr>, Some (res_json 200 (JPost postDoc)))))"
proof (cases "req_file req")
  case None
  then show ?thesis
    using assms by (simp add: post_post_def upload_single_def)
next
  case (Some f)
  then show ?thesis
    using assms
    by (simp add: post_post_def renameSync_def Let_def upload_single_def
             split: sum.split prod.split)
qed

lemma post_post_ok_state:
  assumes "post_post e st req = (st', Some r)" and "status r = 200"
  obtains f and info :: info and au where
    "req_file req = Some f"
    "cast_oid e (info_id info) = Some au"
    "r = res_json 200 (JPost \<lparr>p_id = new_oid e, title = req_title req,
           summary = req_summary req, content = req_content req, cover = new_path f,
           author = au, createdAt = now e\<rparr>)"
    "st' = st\<lparr>files := (files st)(path f := None, new_path f \<mapsto> data f),
              posts := posts st @ [\<lparr>p_id = new_oid e, title = req_title req,
                 summary = req_summary req, content = req_content req, cover = new_path f,
                 author = au, createdAt = now e\<rparr>]\<rparr>"
proof (cases rule: token_cases [where req = req and e = e])
  case 1
  with post_post_unverified [of req e st] assms show ?thesis by auto
next
  case 2
  with post_post_unverified [of req e st] assms show ?thesis by auto
next
  case (3 tok)
  with post_post_unverified [of req e st] assms show ?thesis by auto
next
  case (4 tok info)
  note eq = post_post_verified [OF 4, of st]
  show ?thesis
  proof (cases "req_file req")
    case None
    with eq assms show ?thesis by (simp add: res_json_def)
  next
    case (Some f)
    show ?thesis
    proof (cases "fs_accepts e (new_path f)")
      case False
      with Some eq assms(1) show ?thesis by simp
    next
      case ok: True
      show ?thesis
      proof (cases "Post_create e (posts st) (req_title req) (req_summary req) (req_content req)
                       (new_path f) (info_id info)")
        case (Inl err)
        with ok Some eq assms show ?thesis by (simp add: res_json_def Let_def)
      next
        case (Inr created)
        then obtain au where au: "cast_oid e (info_id info) = Some au"
          and c: "created = (\<lparr>p_id = new_oid e, title = req_title req,
             summary = req_summary req, content = req_content req, cover = new_path f,
             author = au, createdAt = now e\<rparr>, posts st @ [\<lparr>p_id = new_oid e, title = req_title req,
             summary = req_summary req, content = req_content req, cover = new_path f,
             author = au, createdAt = now e\<rparr>])"
          by (auto simp: Post_create_def Let_def split: if_splits option.splits)
        from ok Inr Some eq assms(1)
        have "st' = st\<lparr>files := (files st)(path f := None, new_path f \<mapsto> data f),
                posts := snd created\<rparr> \<and> r = res_json 200 (JPost (fst created))"
          by (simp add: Let_def split: prod.splits)
        with c au Some show ?thesis by (intro that [of f info au]) simp_all
      qed
    qed
  qed
qed

lemma sorted_desc_sort_key:
  "sorted_wrt (\<lambda>a b. createdAt b \<le> createdAt a) (sort_key (\<lambda>p. - createdAt p) ps)"
proof -
  have "sorted (map (\<lambda>p. - createdAt p) (sort_key (\<lambda>p. - createdAt p) ps))"
    by (rule sorted_sort_key)
  then show ?thesis
    by (simp add: sorted_wrt_map)
qed

lemma take_newest:
  assumes "sorted_wrt (\<lambda>a b. createdAt b \<le> createdAt a) xs"
    and "p \<in> set xs" and "r \<in> set (take n xs)" and "createdAt r < createdAt p"
  shows "p \<in> set (take n xs)"
proof (rule ccontr)
  assume "p \<notin> set (take n xs)"
  with assms(2) have "p \<in> set (drop n xs)"
    by (metis Un_iff append_take_drop_id set_append)
  moreover from assms(1) have "\<forall>x\<in>set (take n xs). \<forall>y\<in>set (drop n xs). createdAt y \<le> createdAt x"
    by (metis append_take_drop_id sorted_wrt_append)
  ultimately have "createdAt p \<le> createdAt r" using assms(3) by blast
  with assms(4) show False by simp
qed

lemma find_user:
  "i \<in> set (map u_id us) \<Longrightarrow> \<exists>u\<in>set us. u_id u = i \<and> find (\<lambda>u. u_id u = i) us = Some u"
  by (induction us) auto

lemma populate_createdAt: "pp_createdAt (populate us p) = createdAt p"
  by (simp add: populate_def)

subsection \<open>Authorisation\<close>





subsection \<open>Updates\<close>

text \<open>
  C2. A successful update (PUT /post answered with 200) leaves the author of every stored
  post as it was, the updated one included: the document the request's id finds
  afterwards differs from the one it found before in its title, summary, content and
  cover at most.
\<close>

theorem update_keeps_author:
  assumes "put_post e st req = (st', Some r)" and "status r = 200"
  shows "map author (posts st') = map author (posts st) \<and>
         map p_id (posts st') = map p_id (posts st) \<and>
         (\<exists>postDoc t s c cv.
            Post_findById e (posts st) (req_id req) = Inr (Some postDoc) \<and>
            Post_findById e (posts st') (req_id req) =
              Inr (Some (postDoc\<lparr>title := t, summary := s, content := c, cover := cv\<rparr>))) \<and>
         users st' = users st"
proof -
  from assms obtain i postDoc where
    c: "cast_oid e (req_id req) = Some i"
    and f: "find (\<lambda>p. p_id p = i) (posts st) = Some postDoc"
    and st': "st' = st\<lparr>files := (case req_file req of None \<Rightarrow> files st
                          | Some f \<Rightarrow> (files st)(path f := None, new_path f \<mapsto> data f)),
              posts := Post_updateOne i (req_title req) (req_summary req)
                         (req_content req)
                         (case req_file req of None \<Rightarrow> cover postDoc | Some f \<Rightarrow> new_path f)
                         (posts st)\<rparr>"
    by (rule put_post_ok_state)
  have "map author (posts st') = map author (posts st)"
    by (simp add: st' map_author_updateOne)
  moreover have "map p_id (posts st') = map p_id (posts st)"
    by (simp add: st' map_p_id_updateOne)
  moreover have "Post_findById e (posts st) (req_id req) = Inr (Some postDoc)"
    using c f by (simp add: Post_findById_Some)
  moreover have "Post_findById e (posts st') (req_id req) =
      Inr (Some (postDoc\<lparr>title := req_title req, summary := req_summary req,
                     content := req_content req,
                     cover := (case req_file req of None \<Rightarrow> cover postDoc
                               | Some f \<Rightarrow> new_path f)\<rparr>))"
    using c f by (simp add: Post_findById_Some st' find_updateOne)
  moreover have "users st' = users st"
    by (simp add: st')
  ultimately show ?thesis by blast
qed

theorem update_keeps_author_witness:
  "put_post test_env test_state ((test_put ''ka1'' None)\<lparr>req_id := ''F0''\<rparr>) =
     (test_state\<lparr>posts := [test_post\<lparr>title := ''T'', summary := ''S'', content := ''C''\<rparr>,
                            test_post2]\<rparr>,
      Some (res_json 200 (JPost test_post))) \<and>
   status (res_json 200 (JPost test_post)) = 200 \<and>
   map author (posts (test_state\<lparr>posts := [test_post\<lparr>title := ''T'', summary := ''S'',
       content := ''C''\<rparr>, test_post2]\<rparr>)) = [''a1'', ''b2''] \<and>
   map author (posts test_state) = [''a1'', ''b2'']"
proof -
  have t: "token ((test_put ''ka1'' None)\<lparr>req_id := ''F0''\<rparr>) = Some ''ka1''" "''ka1'' \<noteq> []"
    "jwt_verify test_env ''ka1'' (secret test_env) = Some \<lparr>info_username = ''ann'', info_id = ''a1''\<rparr>"
    "\<forall>f. req_file ((test_put ''ka1'' None)\<lparr>req_id := ''F0''\<rparr>) = Some f \<longrightarrow>
         fs_accepts test_env (new_path f)"
    by (simp_all add: test_defs)
  have h1: "put_post test_env test_state ((test_put ''ka1'' None)\<lparr>req_id := ''F0''\<rparr>) =
     (test_state\<lparr>posts := [test_post\<lparr>title := ''T'', summary := ''S'', content := ''C''\<rparr>,
                            test_post2]\<rparr>,
      Some (res_json 200 (JPost test_post)))"
    unfolding put_post_verified [OF t]
    by (simp add: test_defs Post_findById_def)
  have h2: "status (res_json 200 (JPost test_post)) = 200"
    by (simp add: res_json_def)
  from update_keeps_author [OF h1 h2] h1 h2 show ?thesis
    by (simp add: test_defs)
qed

text \<open>
  C7. After a successful update the post the request's id finds carries the title,
  summary and content of the request; its cover is the renamed upload when the request
  had a file and the previous cover otherwise. The other posts are untouched.
\<close>

theorem update_writes_fields:
  assumes "put_post e st req = (st', Some r)" and "status r = 200"
  shows "\<exists>postDoc.
           Post_findById e (posts st) (req_id req) = Inr (Some postDoc) \<and>
           Post_findById e (posts st') (req_id req) =
             Inr (Some (postDoc\<lparr>title := req_title req, summary := req_summary req,
                                 content := req_content req,
                                 cover := (case req_file req of
                                             None \<Rightarrow> cover postDoc
                                           | Some f \<Rightarrow> new_path f)\<rparr>)) \<and>
           filter (\<lambda>p. p_id p \<noteq> p_id postDoc) (posts st') =
             filter (\<lambda>p. p_id p \<noteq> p_id postDoc) (posts st)"
proof -
  from assms obtain i postDoc where
    c: "cast_oid e (req_id req) = Some i"
    and f: "find (\<lambda>p. p_id p = i) (posts st) = Some postDoc"
    and st': "st' = st\<lparr>files := (case req_file req of None \<Rightarrow> files st
                          | Some f \<Rightarrow> (files st)(path f := None, new_path f \<mapsto> data f)),
              posts := Post_updateOne i (req_title req) (req_summary req)
                         (req_content req)
                         (case req_file req of None \<Rightarrow> cover postDoc | Some f \<Rightarrow> new_path f)
                         (posts st)\<rparr>"
    by (rule put_post_ok_state)
  from f have pid: "p_id postDoc = i" by (rule find_p_id [THEN conjunct1])
  have "Post_findById e (posts st) (req_id req) = Inr (Some postDoc)"
    using c f by (simp add: Post_findById_Some)
  moreover have "Post_findById e (posts st') (req_id req) =
      Inr (Some (postDoc\<lparr>title := req_title req, summary := req_summary req,
                     content := req_content req,
                     cover := (case req_file req of None \<Rightarrow> cover postDoc
                               | Some f \<Rightarrow> new_path f)\<rparr>))"
    using c f by (simp add: Post_findById_Some st' find_updateOne)
  moreover have "filter (\<lambda>p. p_id p \<noteq> p_id postDoc) (posts st') =
      filter (\<lambda>p. p_id p \<noteq> p_id postDoc) (posts st)"
    by (simp add: st' pid filter_updateOne)
  ultimately show ?thesis by blast
qed

theorem update_writes_fields_witness:
  "put_post test_env test_state ((test_put ''ka1'' (Some test_upload))\<lparr>req_id := ''F0''\<rparr>) =
     (test_state\<lparr>files := (files test_state)(''uploads/ab'' := None,
                                                  ''uploads/ab.photo'' \<mapsto> ''GIF''),
                  posts := [test_post\<lparr>title := ''T'', summary := ''S'', content := ''C'',
                                        cover := ''uploads/ab.photo''\<rparr>, test_post2]\<rparr>,
      Some (res_json 200 (JPost test_post))) \<and>
   status (res_json 200 (JPost test_post)) = 200 \<and>
   Post_findById test_env (posts test_state) ''F0'' = Inr (Some test_post) \<and>
   Post_findById test_env
     [test_post\<lparr>title := ''T'', summary := ''S'', content := ''C'',
                 cover := ''uploads/ab.photo''\<rparr>, test_post2] ''F0'' =
     Inr (Some (test_post\<lparr>title := ''T'', summary := ''S'', content := ''C'',
                           cover := ''uploads/ab.photo''\<rparr>))"
proof -
  have t: "token ((test_put ''ka1'' (Some test_upload))\<lparr>req_id := ''F0''\<rparr>) = Some ''ka1''"
    "''ka1'' \<noteq> []"
    "jwt_verify test_env ''ka1'' (secret test_env) = Some \<lparr>info_username = ''ann'', info_id = ''a1''\<rparr>"
    "\<forall>f. req_file ((test_put ''ka1'' (Some test_upload))\<lparr>req_id := ''F0''\<rparr>) = Some f \<longrightarrow>
         fs_accepts test_env (new_path f)"
    by (simp_all add: test_defs new_path_def)
  have h1: "put_post test_env test_state ((test_put ''ka1'' (Some test_upload))\<lparr>req_id := ''F0''\<rparr>) =
     (test_state\<lparr>files := (files test_state)(''uploads/ab'' := None,
                                                  ''uploads/ab.photo'' \<mapsto> ''GIF''),
                  posts := [test_post\<lparr>title := ''T'', summary := ''S'', content := ''C'',
                                        cover := ''uploads/ab.photo''\<rparr>, test_post2]\<rparr>,
      Some (res_json 200 (JPost test_post)))"
    unfolding put_post_verified [OF t]
    by (simp add: test_defs Post_findById_def new_path_def)
  have h2: "status (res_json 200 (JPost test_post)) = 200"
    by (simp add: res_json_def)
  from update_writes_fields [OF h1 h2] h1 h2 show ?thesis
    by (simp add: test_env_def test_post_def test_post2_def test_state_def Post_findById_def)
qed

text \<open>
  C10. A successful update that uploads a new cover never unlinks the previous one: the
  only paths of the upload directory that change are the temporary path of the upload and
  the path it is renamed to. Multer names the temporary file with fresh random bytes, so
  neither of the two is the path of the old cover; under that assumption the old cover
  file is on disk afterwards with the bytes it had, and the post's cover field is the new
  path.
\<close>

theorem update_leaves_old_cover_on_disk:
  assumes "put_post e st req = (st', Some r)" and "status r = 200"
    and "req_file req = Some f"
    and "Post_findById e (posts st) (req_id req) = Inr (Some postDoc)"
    and "path f \<noteq> cover postDoc" and "new_path f \<noteq> cover postDoc"
  shows "files st' (cover postDoc) = files st (cover postDoc) \<and>
         files st' (new_path f) = Some (data f) \<and>
         (\<exists>p'. Post_findById e (posts st') (req_id req) = Inr (Some p') \<and>
               cover p' = new_path f) \<and>
         (\<forall>q. q \<noteq> path f \<and> q \<noteq> new_path f \<longrightarrow> files st' q = files st q)"
proof -
  from assms(1,2) obtain i d where
    c: "cast_oid e (req_id req) = Some i"
    and f: "find (\<lambda>p. p_id p = i) (posts st) = Some d"
    and st': "st' = st\<lparr>files := (case req_file req of None \<Rightarrow> files st
                          | Some f \<Rightarrow> (files st)(path f := None, new_path f \<mapsto> data f)),
              posts := Post_updateOne i (req_title req) (req_summary req)
                         (req_content req)
                         (case req_file req of None \<Rightarrow> cover d | Some f \<Rightarrow> new_path f)
                         (posts st)\<rparr>"
    by (rule put_post_ok_state)
  from c f assms(4) have d: "d = postDoc" by (simp add: Post_findById_Some)
  have fs: "files st' = (files st)(path f := None, new_path f \<mapsto> data f)"
    by (simp add: st' assms(3))
  have "files st' (cover postDoc) = files st (cover postDoc)"
    using assms(5,6) by (simp add: fs)
  moreover have "files st' (new_path f) = Some (data f)"
    by (simp add: fs)
  moreover have "Post_findById e (posts st') (req_id req) =
      Inr (Some (postDoc\<lparr>title := req_title req, summary := req_summary req,
                     content := req_content req, cover := new_path f\<rparr>))"
    using c f d by (simp add: Post_findById_Some st' find_updateOne assms(3))
  moreover have "\<forall>q. q \<noteq> path f \<and> q \<noteq> new_path f \<longrightarrow> files st' q = files st q"
    by (simp add: fs)
  ultimately show ?thesis by simp
qed

theorem update_leaves_old_cover_on_disk_witness:
  "put_post test_env test_state (test_put ''ka1'' (Some test_upload)) =
     (test_state\<lparr>files := (files test_state)(''uploads/ab'' := None,
                                                  ''uploads/ab.photo'' \<mapsto> ''GIF''),
                  posts := [test_post\<lparr>title := ''T'', summary := ''S'', content := ''C'',
                                        cover := ''uploads/ab.photo''\<rparr>, test_post2]\<rparr>,
      Some (res_json 200 (JPost test_post))) \<and>
   status (res_json 200 (JPost test_post)) = 200 \<and>
   req_file (test_put ''ka1'' (Some test_upload)) = Some test_upload \<and>
   Post_findById test_env (posts test_state) (req_id (test_put ''ka1'' (Some test_upload))) =
     Inr (Some test_post) \<and>
   path test_upload \<noteq> cover test_post \<and>
   new_path test_upload \<noteq> cover test_post \<and>
   files test_state (cover test_post) = Some ''PNG'' \<and>
   ((files test_state)(''uploads/ab'' := None, ''uploads/ab.photo'' \<mapsto> ''GIF''))
      (cover test_post) = Some ''PNG''"
proof -
  have t: "token (test_put ''ka1'' (Some test_upload)) = Some ''ka1''" "''ka1'' \<noteq> []"
    "jwt_verify test_env ''ka1'' (secret test_env) = Some \<lparr>info_username = ''ann'', info_id = ''a1''\<rparr>"
    "\<forall>f. req_file (test_put ''ka1'' (Some test_upload)) = Some f \<longrightarrow>
         fs_accepts test_env (new_path f)"
    by (simp_all add: test_defs new_path_def)
  have h1: "put_post test_env test_state (test_put ''ka1'' (Some test_upload)) =
     (test_state\<lparr>files := (files test_state)(''uploads/ab'' := None,
                                                  ''uploads/ab.photo'' \<mapsto> ''GIF''),
                  posts := [test_post\<lparr>title := ''T'', summary := ''S'', content := ''C'',
                                        cover := ''uploads/ab.photo''\<rparr>, test_post2]\<rparr>,
      Some (res_json 200 (JPost test_post)))"
    unfolding put_post_verified [OF t]
    by (simp add: test_defs Post_findById_def new_path_def)
  have h2: "status (res_json 200 (JPost test_post)) = 200"
    by (simp add: res_json_def)
  have h3: "req_file (test_put ''ka1'' (Some test_upload)) = Some test_upload"
    by (simp add: test_put_def)
  have h4: "Post_findById test_env (posts test_state) (req_id (test_put ''ka1'' (Some test_upload))) =
     Inr (Some test_post)"
    by (simp add: test_defs Post_findById_def)
  have h5: "path test_upload \<noteq> cover test_post"
    by (simp add: test_defs)
  have h6: "new_path test_upload \<noteq> cover test_post"
    by (simp add: test_defs new_path_def)
  have old: "files test_state (cover test_post) = Some ''PNG''"
    by (simp add: test_defs)
  from update_leaves_old_cover_on_disk [OF h1 h2 h3 h4 h5 h6] old h1 h2 h3 h4 h5 h6
  show ?thesis by simp
qed

subsection \<open>Cover paths\<close>

text \<open>
  C9. When the original filename of the upload has no \<open>.\<close>, the extension computed by
  \<open>split('.')\<close> is the whole filename, and the new path is the temporary path, a
  \<open>.\<close>, and the whole filename. That path is the cover of the post a successful create
  stores, and of the post a successful update with that file stores.
\<close>

theorem extension_of_dotless_name:
  assumes "CHR ''.'' \<notin> set (originalname f)"
  shows "last (split_on CHR ''.'' (originalname f)) = originalname f \<and>
         new_path f = path f @ ''.'' @ originalname f \<and>
         (req_file creq = Some f \<and> post_post e st creq = (st', Some r) \<and> status r = 200 \<longrightarrow>
            (\<exists>postDoc. r = res_json 200 (JPost postDoc) \<and> postDoc \<in> set (posts st') \<and>
                       cover postDoc = path f @ ''.'' @ originalname f)) \<and>
         (req_file ureq = Some f \<and> put_post e st ureq = (st'', Some r') \<and> status r' = 200 \<longrightarrow>
            (\<exists>p'. Post_findById e (posts st'') (req_id ureq) = Inr (Some p') \<and>
                  cover p' = path f @ ''.'' @ originalname f))"
proof -
  from assms have ext: "last (split_on CHR ''.'' (originalname f)) = originalname f"
    by (simp add: split_on_no_sep)
  then have np: "new_path f = path f @ ''.'' @ originalname f"
    by (simp add: new_path_def)
  have "\<exists>postDoc. r = res_json 200 (JPost postDoc) \<and> postDoc \<in> set (posts st') \<and>
          cover postDoc = path f @ ''.'' @ originalname f"
    if c: "req_file creq = Some f \<and> post_post e st creq = (st', Some r) \<and> status r = 200"
  proof -
    from c obtain g and info :: info and au where
      g: "req_file creq = Some g"
      and r: "r = res_json 200 (JPost \<lparr>p_id = new_oid e, title = req_title creq,
           summary = req_summary creq, content = req_content creq, cover = new_path g,
           author = au, createdAt = now e\<rparr>)"
      and s: "st' = st\<lparr>files := (files st)(path g := None, new_path g \<mapsto> data g),
              posts := posts st @ [\<lparr>p_id = new_oid e, title = req_title creq,
                 summary = req_summary creq, content = req_content creq, cover = new_path g,
                 author = au, createdAt = now e\<rparr>]\<rparr>"
      by (blast elim: post_post_ok_state)
    from g c have "g = f" by simp
    with r s np show ?thesis
      by (intro exI [of _ "\<lparr>p_id = new_oid e, title = req_title creq,
           summary = req_summary creq, content = req_content creq, cover = new_path f,
           author = au, createdAt = now e\<rparr>"]) simp
  qed
  moreover have "\<exists>p'. Post_findById e (posts st'') (req_id ureq) = Inr (Some p') \<and>
          cover p' = path f @ ''.'' @ originalname f"
    if u: "req_file ureq = Some f \<and> put_post e st ureq = (st'', Some r') \<and> status r' = 200"
  proof -
    from u obtain i d where
      c: "cast_oid e (req_id ureq) = Some i"
      and f: "find (\<lambda>p. p_id p = i) (posts st) = Some d"
      and s: "st'' = st\<lparr>files := (case req_file ureq of None \<Rightarrow> files st
                          | Some f \<Rightarrow> (files st)(path f := None, new_path f \<mapsto> data f)),
              posts := Post_updateOne i (req_title ureq) (req_summary ureq)
                         (req_content ureq)
                         (case req_file ureq of None \<Rightarrow> cover d | Some f \<Rightarrow> new_path f)
                         (posts st)\<rparr>"
      by (blast elim: put_post_ok_state)
    from c f u show ?thesis by (simp add: Post_findById_Some s find_updateOne np)
  qed
  ultimately show ?thesis using ext np by blast
qed

theorem extension_of_dotless_name_witness:
  "CHR ''.'' \<notin> set (originalname test_upload) \<and>
   new_path test_upload = ''uploads/ab.photo'' \<and>
   req_file (test_create (Some ''ka1'')) = Some test_upload \<and>
   post_post test_env test_state (test_create (Some ''ka1'')) =
     (test_state\<lparr>files := (files test_state)(''uploads/ab'' := None,
                                                  ''uploads/ab.photo'' \<mapsto> ''GIF''),
                  posts := [test_post, test_post2,
                            \<lparr>p_id = ''c3'', title = ''T'', summary = ''S'', content = ''C'',
                             cover = ''uploads/ab.photo'', author = ''a1'', createdAt = 30\<rparr>]\<rparr>,
      Some (res_json 200 (JPost \<lparr>p_id = ''c3'', title = ''T'', summary = ''S'', content = ''C'',
                             cover = ''uploads/ab.photo'', author = ''a1'', createdAt = 30\<rparr>))) \<and>
   req_file ((test_put ''ka1'' (Some test_upload))\<lparr>req_id := ''F0''\<rparr>) = Some test_upload \<and>
   put_post test_env test_state ((test_put ''ka1'' (Some test_upload))\<lparr>req_id := ''F0''\<rparr>) =
     (test_state\<lparr>files := (files test_state)(''uploads/ab'' := None,
                                                  ''uploads/ab.photo'' \<mapsto> ''GIF''),
                  posts := [test_post\<lparr>title := ''T'', summary := ''S'', content := ''C'',
                                        cover := ''uploads/ab.photo''\<rparr>, test_post2]\<rparr>,
      Some (res_json 200 (JPost test_post)))"
proof -
  have h0: "CHR ''.'' \<notin> set (originalname test_upload)"
    by (simp add: test_upload_def)
  have t: "''ka1'' \<noteq> []"
    "jwt_verify test_env ''ka1'' (secret test_env) = Some \<lparr>info_username = ''ann'', info_id = ''a1''\<rparr>"
    by (simp_all add: test_defs)
  have tc: "token (test_create (Some ''ka1'')) = Some ''ka1''"
    by (simp add: test_create_def)
  have tu: "token ((test_put ''ka1'' (Some test_upload))\<lparr>req_id := ''F0''\<rparr>) = Some ''ka1''"
    by (simp add: test_put_def)
  have ok: "\<forall>f. req_file ((test_put ''ka1'' (Some test_upload))\<lparr>req_id := ''F0''\<rparr>) = Some f \<longrightarrow>
         fs_accepts test_env (new_path f)"
    by (simp add: test_defs new_path_def)
  have c: "post_post test_env test_state (test_create (Some ''ka1'')) =
     (test_state\<lparr>files := (files test_state)(''uploads/ab'' := None,
                                                  ''uploads/ab.photo'' \<mapsto> ''GIF''),
                  posts := [test_post, test_post2,
                            \<lparr>p_id = ''c3'', title = ''T'', summary = ''S'', content = ''C'',
                             cover = ''uploads/ab.photo'', author = ''a1'', createdAt = 30\<rparr>]\<rparr>,
      Some (res_json 200 (JPost \<lparr>p_id = ''c3'', title = ''T'', summary = ''S'', content = ''C'',
                             cover = ''uploads/ab.photo'', author = ''a1'', createdAt = 30\<rparr>)))"
    unfolding post_post_verified [OF tc t]
    by (simp add: test_defs Post_create_def new_path_def Let_def)
  have u: "put_post test_env test_state ((test_put ''ka1'' (Some test_upload))\<lparr>req_id := ''F0''\<rparr>) =
     (test_state\<lparr>files := (files test_state)(''uploads/ab'' := None,
                                                  ''uploads/ab.photo'' \<mapsto> ''GIF''),
                  posts := [test_post\<lparr>title := ''T'', summary := ''S'', content := ''C'',
                                        cover := ''uploads/ab.photo''\<rparr>, test_post2]\<rparr>,
      Some (res_json 200 (JPost test_post)))"
    unfolding put_post_verified [OF tu t ok]
    by (simp add: test_defs Post_findById_def new_path_def)
  have rc: "req_file (test_create (Some ''ka1'')) = Some test_upload"
    by (simp add: test_create_def)
  have ru: "req_file ((test_put ''ka1'' (Some test_upload))\<lparr>req_id := ''F0''\<rparr>) = Some test_upload"
    by (simp add: test_put_def)
  from extension_of_dotless_name [OF h0]
  have "new_path test_upload = path test_upload @ ''.'' @ originalname test_upload"
    by blast
  then have "new_path test_upload = ''uploads/ab.photo''"
    by (simp add: test_upload_def)
  with h0 c u rc ru show ?thesis by simp
qed

subsection \<open>Deletion\<close>

text \<open>
  C6. A successful delete (DELETE /post/:id answered with 200) leaves no file at the
  cover path of the post the id found, touches no other file, and removes that document
  from the collection; with unique ids the id finds no document afterwards.
\<close>

theorem delete_removes_cover_then_record:
  assumes "delete_post e st req = (st', Some r)" and "status r = 200"
  shows "\<exists>postDoc.
           Post_findById e (posts st) (param_id req) = Inr (Some postDoc) \<and>
           (cover postDoc \<noteq> [] \<longrightarrow> files st' (cover postDoc) = None) \<and>
           (\<forall>q. q \<noteq> cover postDoc \<longrightarrow> files st' q = files st q) \<and>
           posts st' = remove1 postDoc (posts st) \<and>
           (distinct (map p_id (posts st)) \<longrightarrow>
              Post_findById e (posts st') (param_id req) = Inr None) \<and>
           users st' = users st"
proof -
  from assms obtain i postDoc where
    c: "cast_oid e (param_id req) = Some i"
    and f: "find (\<lambda>p. p_id p = i) (posts st) = Some postDoc"
    and st': "st' = st\<lparr>files := (if cover postDoc \<noteq> [] then (files st)(cover postDoc := None)
                          else files st),
              posts := Post_deleteOne i (posts st)\<rparr>"
    by (rule delete_post_ok_state)
  have "Post_findById e (posts st) (param_id req) = Inr (Some postDoc)"
    using c f by (simp add: Post_findById_Some)
  moreover have "cover postDoc \<noteq> [] \<longrightarrow> files st' (cover postDoc) = None"
    by (simp add: st')
  moreover have "\<forall>q. q \<noteq> cover postDoc \<longrightarrow> files st' q = files st q"
    by (simp add: st')
  moreover have "posts st' = remove1 postDoc (posts st)"
    using f by (simp add: st' deleteOne_remove1)
  moreover have "distinct (map p_id (posts st)) \<longrightarrow>
      Post_findById e (posts st') (param_id req) = Inr None"
    using c by (simp add: st' Post_findById_def find_deleteOne_distinct)
  moreover have "users st' = users st"
    by (simp add: st')
  ultimately show ?thesis by blast
qed

theorem delete_removes_cover_then_record_witness:
  "delete_post test_env test_state ((test_delete ''ka1'')\<lparr>param_id := ''F0''\<rparr>) =
     (test_state\<lparr>files := (files test_state)(''uploads/x.png'' := None),
                  posts := [test_post2]\<rparr>,
      Some (res_json 200 JSuccess)) \<and>
   status (res_json 200 JSuccess) = 200 \<and>
   files test_state ''uploads/x.png'' = Some ''PNG'' \<and>
   cover test_post = ''uploads/x.png'' \<and>
   distinct (map p_id (posts test_state)) \<and>
   Post_findById test_env (posts test_state) ''F0'' = Inr (Some test_post) \<and>
   Post_findById test_env [test_post2] ''F0'' = Inr None"
proof -
  have t: "token ((test_delete ''ka1'')\<lparr>param_id := ''F0''\<rparr>) = Some ''ka1''" "''ka1'' \<noteq> []"
    "jwt_verify test_env ''ka1'' (secret test_env) = Some \<lparr>info_username = ''ann'', info_id = ''a1''\<rparr>"
    by (simp_all add: test_defs)
  have h1: "delete_post test_env test_state ((test_delete ''ka1'')\<lparr>param_id := ''F0''\<rparr>) =
     (test_state\<lparr>files := (files test_state)(''uploads/x.png'' := None),
                  posts := [test_post2]\<rparr>,
      Some (res_json 200 JSuccess))"
    unfolding delete_post_verified [OF t]
    by (simp add: test_defs Post_findById_def Post_findByIdAndDelete_def)
  have h2: "status (res_json 200 JSuccess) = 200"
    by (simp add: res_json_def)
  from delete_removes_cover_then_record [OF h1 h2] h1 h2 show ?thesis
    by (simp add: test_defs Post_findById_def)
qed

subsection \<open>The post list\<close>

text \<open>
  C3. In every state the list endpoint (GET /post) answers 200 with at most 20 posts, in
  descending order of creation timestamp. Each is a stored post with its author joined
  from the user collection: where the author is a stored user, the post carries that
  user's id and username. No stored post left out of the answer is newer than one that
  is in it.
\<close>

theorem list_newest_twenty:
  "\<exists>ps. get_post st = (st, Some \<lparr>status = 200, body = JPosts ps, set_cookie = None\<rparr>) \<and>
        length ps \<le> 20 \<and>
        length ps = min 20 (length (posts st)) \<and>
        sorted_wrt (\<lambda>a b. pp_createdAt b \<le> pp_createdAt a) ps \<and>
        (\<forall>r\<in>set ps. \<exists>p\<in>set (posts st).
            r = populate (users st) p \<and> pp_id r = p_id p \<and> pp_createdAt r = createdAt p \<and>
            pp_author r = map_option (\<lambda>u. (u_id u, u_username u))
                            (find (\<lambda>u. u_id u = author p) (users st)) \<and>
            (author p \<in> set (map u_id (users st)) \<longrightarrow>
               (\<exists>u\<in>set (users st). u_id u = author p \<and>
                                     pp_author r = Some (author p, u_username u)))) \<and>
        (\<forall>p\<in>set (posts st). \<forall>r\<in>set ps.
            pp_createdAt r < createdAt p \<longrightarrow> populate (users st) p \<in> set ps)"
proof -
  let ?sorted = "sort_key (\<lambda>p. - createdAt p) (posts st)"
  let ?found = "take 20 ?sorted"
  let ?ps = "map (populate (users st)) ?found"
  have resp: "get_post st = (st, Some \<lparr>status = 200, body = JPosts ?ps, set_cookie = None\<rparr>)"
    by (simp add: get_post_def res_json_def)
  have len: "length ?ps = min 20 (length (posts st))"
    by simp
  have desc: "sorted_wrt (\<lambda>a b. createdAt b \<le> createdAt a) ?sorted"
    by (rule sorted_desc_sort_key)
  then have "sorted_wrt (\<lambda>a b. createdAt b \<le> createdAt a) ?found"
    by (rule sorted_wrt_take)
  then have srt: "sorted_wrt (\<lambda>a b. pp_createdAt b \<le> pp_createdAt a) ?ps"
    by (simp add: sorted_wrt_map populate_createdAt)
  have sub: "set ?found \<subseteq> set (posts st)"
    using set_take_subset [of 20 ?sorted] by simp
  have joined: "\<forall>r\<in>set ?ps. \<exists>p\<in>set (posts st).
            r = populate (users st) p \<and> pp_id r = p_id p \<and> pp_createdAt r = createdAt p \<and>
            pp_author r = map_option (\<lambda>u. (u_id u, u_username u))
                            (find (\<lambda>u. u_id u = author p) (users st)) \<and>
            (author p \<in> set (map u_id (users st)) \<longrightarrow>
               (\<exists>u\<in>set (users st). u_id u = author p \<and>
                                     pp_author r = Some (author p, u_username u)))"
  proof
    fix r assume "r \<in> set ?ps"
    then obtain p where p: "p \<in> set ?found" and r: "r = populate (users st) p"
      by auto
    from p sub have mem: "p \<in> set (posts st)" by blast
    have known: "\<exists>u\<in>set (users st). u_id u = author p \<and>
                                     pp_author r = Some (author p, u_username u)"
      if "author p \<in> set (map u_id (users st))"
    proof -
      from that obtain u where "u \<in> set (users st)" "u_id u = author p"
        "find (\<lambda>u. u_id u = author p) (users st) = Some u"
        using find_user by blast
      then show ?thesis by (auto simp: r populate_def)
    qed
    from r have "pp_id r = p_id p \<and> pp_createdAt r = createdAt p \<and>
            pp_author r = map_option (\<lambda>u. (u_id u, u_username u))
                            (find (\<lambda>u. u_id u = author p) (users st))"
      by (simp add: populate_def)
    with mem r known show "\<exists>p\<in>set (posts st).
            r = populate (users st) p \<and> pp_id r = p_id p \<and> pp_createdAt r = createdAt p \<and>
            pp_author r = map_option (\<lambda>u. (u_id u, u_username u))
                            (find (\<lambda>u. u_id u = author p) (users st)) \<and>
            (author p \<in> set (map u_id (users st)) \<longrightarrow>
               (\<exists>u\<in>set (users st). u_id u = author p \<and>
                                     pp_author r = Some (author p, u_username u)))"
      by blast
  qed
  have newest: "\<forall>p\<in>set (posts st). \<forall>r\<in>set ?ps.
            pp_createdAt r < createdAt p \<longrightarrow> populate (users st) p \<in> set ?ps"
  proof (intro ballI impI)
    fix p r assume p: "p \<in> set (posts st)" and "r \<in> set ?ps"
      and lt: "pp_createdAt r < createdAt p"
    then obtain q where q: "q \<in> set ?found" and r: "r = populate (users st) q"
      by auto
    from lt r have "createdAt q < createdAt p"
      by (simp add: populate_createdAt)
    moreover from p have "p \<in> set ?sorted" by simp
    ultimately have "p \<in> set ?found"
      using desc q by (blast intro: take_newest)
    then show "populate (users st) p \<in> set ?ps" by simp
  qed
  from resp len srt joined newest show ?thesis
    by (intro exI [of _ ?ps]) simp
qed


theorem list_newest_twenty_witness:
  "get_post test_state =
     (test_state,
      Some \<lparr>status = 200,
            body = JPosts [populate (users test_state) test_post2,
                           populate (users test_state) test_post],
            set_cookie = None\<rparr>) \<and>
   posts test_state = [test_post, test_post2] \<and>
   createdAt test_post < createdAt test_post2 \<and>
   pp_author (populate (users test_state) test_post2) = Some (''b2'', ''bob'') \<and>
   pp_author (populate (users test_state) test_post) = Some (''a1'', ''ann'') \<and>
   length (posts (test_state\<lparr>posts := replicate 21 test_post\<rparr>)) = 21 \<and>
   (case snd (get_post (test_state\<lparr>posts := replicate 21 test_post\<rparr>)) of
      None \<Rightarrow> 0
    | Some r \<Rightarrow> (case body r of JPosts ps \<Rightarrow> length ps | _ \<Rightarrow> 0)) = 20"
proof -
  have small: "get_post test_state =
     (test_state,
      Some \<lparr>status = 200,
            body = JPosts [populate (users test_state) test_post2,
                           populate (users test_state) test_post],
            set_cookie = None\<rparr>)"
    by (simp add: get_post_def res_json_def test_state_def test_post_def test_post2_def)
  have auth: "pp_author (populate (users test_state) test_post2) = Some (''b2'', ''bob'')"
    "pp_author (populate (users test_state) test_post) = Some (''a1'', ''ann'')"
    by (simp_all add: populate_def test_defs)
  from list_newest_twenty [of "test_state\<lparr>posts := replicate 21 test_post\<rparr>"]
  have "(case snd (get_post (test_state\<lparr>posts := replicate 21 test_post\<rparr>)) of
      None \<Rightarrow> 0
    | Some r \<Rightarrow> (case body r of JPosts ps \<Rightarrow> length ps | _ \<Rightarrow> 0)) = 20"
    by auto
  with small auth show ?thesis
    by (simp add: test_state_def test_post_def test_post2_def)
qed

subsection \<open>Sessions and accounts\<close>

text \<open>
  C4. A login with an unknown username, and a login whose supplied password does not
  match the stored hash, get the very same response: 400 ``wrong credentials'', with no
  cookie set, and the state unchanged.
\<close>

theorem login_failure_is_generic:
  assumes "User_findOne (users st) (username req) = None \<or>
           (\<exists>userDoc pw. User_findOne (users st) (username req) = Some userDoc \<and>
                          password req = Some pw \<and>
                          \<not> compareSync e pw (u_password userDoc))"
  shows "post_login e st req =
           (st, Some \<lparr>status = 400, body = JString ''wrong credentials'', set_cookie = None\<rparr>)"
  using assms by (auto simp: post_login_def res_json_def)

theorem login_failure_is_generic_witness:
  "User_findOne (users test_state) (username \<lparr>username = ''eve'', password = Some ''pw''\<rparr>) = None \<and>
   User_findOne (users test_state) (username \<lparr>username = ''ann'', password = Some ''no''\<rparr>) =
     Some \<lparr>u_id = ''a1'', u_username = ''ann'', u_password = ''napw''\<rparr> \<and>
   \<not> compareSync test_env ''no'' ''napw'' \<and>
   post_login test_env test_state \<lparr>username = ''eve'', password = Some ''pw''\<rparr> =
     (test_state, Some \<lparr>status = 400, body = JString ''wrong credentials'', set_cookie = None\<rparr>) \<and>
   post_login test_env test_state \<lparr>username = ''ann'', password = Some ''no''\<rparr> =
     (test_state, Some \<lparr>status = 400, body = JString ''wrong credentials'', set_cookie = None\<rparr>) \<and>
   post_login test_env test_state \<lparr>username = ''ann'', password = Some ''pw''\<rparr> =
     (test_state, Some \<lparr>status = 200, body = JIdentity ''a1'' ''ann'',
                         set_cookie = Some (''token'', ''ka1'')\<rparr>)"
proof -
  have h1: "User_findOne (users test_state) (username \<lparr>username = ''eve'', password = Some ''pw''\<rparr>) = None"
    by (simp add: User_findOne_def test_defs)
  have h2: "User_findOne (users test_state) (username \<lparr>username = ''ann'', password = Some ''no''\<rparr>) =
     Some \<lparr>u_id = ''a1'', u_username = ''ann'', u_password = ''napw''\<rparr>"
    by (simp add: User_findOne_def test_defs)
  have h3: "\<not> compareSync test_env ''no'' ''napw''"
    by (simp add: test_defs)
  have ok: "post_login test_env test_state \<lparr>username = ''ann'', password = Some ''pw''\<rparr> =
     (test_state, Some \<lparr>status = 200, body = JIdentity ''a1'' ''ann'',
                         set_cookie = Some (''token'', ''ka1'')\<rparr>)"
    by (simp add: post_login_def User_findOne_def test_defs)
  from h2 h3 have h4: "User_findOne (users test_state) (username \<lparr>username = ''ann'', password = Some ''no''\<rparr>) = None \<or>
           (\<exists>userDoc pw. User_findOne (users test_state) (username \<lparr>username = ''ann'', password = Some ''no''\<rparr>) = Some userDoc \<and>
                          password \<lparr>username = ''ann'', password = Some ''no''\<rparr> = Some pw \<and>
                          \<not> compareSync test_env pw (u_password userDoc))"
    by simp
  from login_failure_is_generic [of test_state "\<lparr>username = ''eve'', password = Some ''pw''\<rparr>" test_env]
       login_failure_is_generic [OF h4] h1 h2 h3 ok
  show ?thesis by blast
qed

text \<open>
  C5 as stated fails: a create request whose token does not verify is answered with 403,
  not with 401.
\<close>

theorem create_invalid_token_counterexample:
  "token (test_create (Some ''forged'')) = Some ''forged'' \<and>
   jwt_verify test_env ''forged'' (secret test_env) = None \<and>
   map_option status (snd (post_post test_env test_state (test_create (Some ''forged'')))) = Some 403 \<and>
   map_option status (snd (post_post test_env test_state (test_create (Some ''forged'')))) \<noteq> Some 401"
  by (simp add: post_post_def test_defs Let_def res_json_def)

text \<open>
  C5, as amended. A create request (POST /post) without a token cookie, or with an empty
  one, is answered with 401 ``No token provided''; one whose token does not verify is
  answered with 403 ``Invalid token''. In both cases no post is created.
\<close>

theorem create_without_session:
  "(token req = None \<or> token req = Some [] \<longrightarrow>
      (\<exists>st'. post_post e st req =
               (st', Some \<lparr>status = 401, body = JError ''No token provided'', set_cookie = None\<rparr>) \<and>
             posts st' = posts st \<and> users st' = users st)) \<and>
   (\<forall>tok. token req = Some tok \<and> tok \<noteq> [] \<and> jwt_verify e tok (secret e) = None \<longrightarrow>
      (\<exists>st'. post_post e st req =
               (st', Some \<lparr>status = 403, body = JError ''Invalid token'', set_cookie = None\<rparr>) \<and>
             posts st' = posts st \<and> users st' = users st))"
  by (auto simp: post_post_def Let_def res_json_def)

theorem create_without_session_witness:
  "token (test_create None) = None \<and>
   map_option status (snd (post_post test_env test_state (test_create None))) = Some 401 \<and>
   posts (fst (post_post test_env test_state (test_create None))) = posts test_state \<and>
   token (test_create (Some ''forged'')) = Some ''forged'' \<and> ''forged'' \<noteq> [] \<and>
   jwt_verify test_env ''forged'' (secret test_env) = None \<and>
   map_option status (snd (post_post test_env test_state (test_create (Some ''forged'')))) = Some 403 \<and>
   posts (fst (post_post test_env test_state (test_create (Some ''forged'')))) = posts test_state"
proof -
  have h1: "token (test_create None) = None"
    by (simp add: test_create_def)
  have h2: "token (test_create (Some ''forged'')) = Some ''forged'' \<and> ''forged'' \<noteq> [] \<and>
            jwt_verify test_env ''forged'' (secret test_env) = None"
    by (simp add: test_defs)
  from create_without_session [of "test_create None" test_env test_state] h1
  have a: "map_option status (snd (post_post test_env test_state (test_create None))) = Some 401 \<and>
           posts (fst (post_post test_env test_state (test_create None))) = posts test_state"
    by auto
  from create_without_session [of "test_create (Some ''forged'')" test_env test_state] h2
  have b: "map_option status (snd (post_post test_env test_state (test_create (Some ''forged'')))) = Some 403 \<and>
           posts (fst (post_post test_env test_state (test_create (Some ''forged'')))) = posts test_state"
    by auto
  from a b h1 h2 show ?thesis by simp
qed

text \<open>
  C8. The first registration of a username, with a password and a fresh id, answers 200
  with the created user record and stores the hash of the password. A registration of
  the same username in any state that still holds that record (the next request, or a
  later one) is answered with 400 and stores nothing; when it supplies a password, it is
  the uniqueness constraint of the storage layer that rejects it.
\<close>

theorem register_twice_fails:
  assumes "username req \<notin> set (map u_username (users st))"
    and "new_oid e \<notin> set (map u_id (users st))"
    and "password req = Some pw"
    and "username req2 = username req"
    and "userDoc = \<lparr>u_id = new_oid e, u_username = username req,
                     u_password = hashSync e pw (salt e)\<rparr>"
  shows "post_register e st req =
           (st\<lparr>users := users st @ [userDoc]\<rparr>,
            Some \<lparr>status = 200, body = JUser userDoc, set_cookie = None\<rparr>) \<and>
         (\<forall>st2. userDoc \<in> set (users st2) \<longrightarrow>
            (\<exists>err. post_register e2 st2 req2 =
                     (st2, Some \<lparr>status = 400, body = JException err, set_cookie = None\<rparr>) \<and>
                   (password req2 \<noteq> None \<longrightarrow> err = DuplicateKey)))"
proof (intro conjI allI impI)
  from assms(1-3,5) show "post_register e st req =
      (st\<lparr>users := users st @ [userDoc]\<rparr>,
       Some \<lparr>status = 200, body = JUser userDoc, set_cookie = None\<rparr>)"
    by (simp add: post_register_def User_create_def res_json_def Let_def)
next
  fix st2 :: state assume "userDoc \<in> set (users st2)"
  then have "u_username userDoc \<in> set (map u_username (users st2))"
    by simp
  with assms(4,5) have dup: "username req2 \<in> set (map u_username (users st2))"
    by simp
  show "\<exists>err. post_register e2 st2 req2 =
                  (st2, Some \<lparr>status = 400, body = JException err, set_cookie = None\<rparr>) \<and>
                (password req2 \<noteq> None \<longrightarrow> err = DuplicateKey)"
  proof (cases "password req2")
    case None
    then show ?thesis by (simp add: post_register_def res_json_def)
  next
    case (Some pw2)
    with dup show ?thesis by (simp add: post_register_def User_create_def res_json_def)
  qed
qed

theorem register_twice_fails_witness:
  "username \<lparr>username = ''eve'', password = Some ''pw''\<rparr> \<notin> set (map u_username (users test_state)) \<and>
   new_oid test_env \<notin> set (map u_id (users test_state)) \<and>
   post_register test_env test_state \<lparr>username = ''eve'', password = Some ''pw''\<rparr> =
     (test_state\<lparr>users := users test_state @
                    [\<lparr>u_id = ''c3'', u_username = ''eve'', u_password = ''napw''\<rparr>]\<rparr>,
      Some \<lparr>status = 200,
            body = JUser \<lparr>u_id = ''c3'', u_username = ''eve'', u_password = ''napw''\<rparr>,
            set_cookie = None\<rparr>) \<and>
   \<lparr>u_id = ''c3'', u_username = ''eve'', u_password = ''napw''\<rparr> \<in>
     set (users (test_state\<lparr>users := users test_state @
                    [\<lparr>u_id = ''c3'', u_username = ''eve'', u_password = ''napw''\<rparr>]\<rparr>)) \<and>
   post_register (test_env\<lparr>new_oid := ''d4''\<rparr>)
     (test_state\<lparr>users := users test_state @
                    [\<lparr>u_id = ''c3'', u_username = ''eve'', u_password = ''napw''\<rparr>]\<rparr>)
     \<lparr>username = ''eve'', password = Some ''other''\<rparr> =
     (test_state\<lparr>users := users test_state @
                    [\<lparr>u_id = ''c3'', u_username = ''eve'', u_password = ''napw''\<rparr>]\<rparr>,
      Some \<lparr>status = 400, body = JException DuplicateKey, set_cookie = None\<rparr>)"
proof -
  have h1: "username \<lparr>username = ''eve'', password = Some ''pw''\<rparr> \<notin> set (map u_username (users test_state))"
    by (simp add: test_defs)
  have h2: "new_oid test_env \<notin> set (map u_id (users test_state))"
    by (simp add: test_defs)
  have h3: "password \<lparr>username = ''eve'', password = Some ''pw''\<rparr> = Some ''pw''"
    by simp
  have h4: "username \<lparr>username = ''eve'', password = Some ''other''\<rparr> =
            username \<lparr>username = ''eve'', password = Some ''pw''\<rparr>"
    by simp
  have h5: "\<lparr>u_id = ''c3'', u_username = ''eve'', u_password = ''napw''\<rparr> =
            \<lparr>u_id = new_oid test_env,
             u_username = username \<lparr>username = ''eve'', password = Some ''pw''\<rparr>,
             u_password = hashSync test_env ''pw'' (salt test_env)\<rparr>"
    by (simp add: test_defs)
  have h6: "\<lparr>u_id = ''c3'', u_username = ''eve'', u_password = ''napw''\<rparr> \<in>
     set (users (test_state\<lparr>users := users test_state @
                    [\<lparr>u_id = ''c3'', u_username = ''eve'', u_password = ''napw''\<rparr>]\<rparr>))"
    by simp
  note both = register_twice_fails [OF h1 h2 h3 h4 h5, of "test_env\<lparr>new_oid := ''d4''\<rparr>"]
  from both have first: "post_register test_env test_state \<lparr>username = ''eve'', password = Some ''pw''\<rparr> =
     (test_state\<lparr>users := users test_state @
                    [\<lparr>u_id = ''c3'', u_username = ''eve'', u_password = ''napw''\<rparr>]\<rparr>,
      Some \<lparr>status = 200,
            body = JUser \<lparr>u_id = ''c3'', u_username = ''eve'', u_password = ''napw''\<rparr>,
            set_cookie = None\<rparr>)"
    by (rule conjunct1)
  from both [THEN conjunct2, rule_format, OF h6]
  have second: "post_register (test_env\<lparr>new_oid := ''d4''\<rparr>)
     (test_state\<lparr>users := users test_state @
                    [\<lparr>u_id = ''c3'', u_username = ''eve'', u_password = ''napw''\<rparr>]\<rparr>)
     \<lparr>username = ''eve'', password = Some ''other''\<rparr> =
     (test_state\<lparr>users := users test_state @
                    [\<lparr>u_id = ''c3'', u_username = ''eve'', u_password = ''napw''\<rparr>]\<rparr>,
      Some \<lparr>status = 400, body = JException DuplicateKey, set_cookie = None\<rparr>)"
    by auto
  from h1 h2 h6 first second show ?thesis by blast
qed

end
